theory Spec2Isabelle
  imports Main "HOL-Library.Sublist" "HOL-Library.Multiset"
begin

section \<open>Data model\<close>

text \<open>
  The source tree is a JavaScript object used as a dictionary from paths to file
  contents (\<^verbatim>\<open>Record<string, string>\<close>). It is modelled as a map. A value stored
  under a path is whatever the code assigns there: a string, or \<^verbatim>\<open>undefined\<close> when
  the evolution service left the optional \<^verbatim>\<open>code\<close> property out.
\<close>

type_synonym path = string

datatype jsval = Undefined | Str string

type_synonym VFS = "path \<rightharpoonup> jsval"

text \<open>JavaScript truthiness of the values that occur: \<^verbatim>\<open>undefined\<close> and the empty
  string are falsy, every other string is truthy.\<close>

fun truthy :: "jsval \<Rightarrow> bool" where
  "truthy Undefined = False"
| "truthy (Str s) = (s \<noteq> [])"

text \<open>
  A dictionary object is created as an object literal or by \<^verbatim>\<open>JSON.parse\<close>, so besides
  its own keys it has the properties every object inherits from
  \<^verbatim>\<open>Object.prototype\<close>; reading one of those gives a function or an object, which is
  truthy.
\<close>

definition Object_prototype_keys :: "string list" where
  "Object_prototype_keys =
     [''constructor'', ''hasOwnProperty'', ''isPrototypeOf'', ''propertyIsEnumerable'',
      ''toLocaleString'', ''toString'', ''valueOf'', ''__proto__'',
      ''__defineGetter__'', ''__defineSetter__'', ''__lookupGetter__'', ''__lookupSetter__'']"

text \<open>Reading the tree at one of its own keys, or at a key that is neither an own key
  nor an inherited property; the latter reads as \<^verbatim>\<open>undefined\<close>.\<close>

definition js_get :: "VFS \<Rightarrow> path \<Rightarrow> jsval" where
  "js_get files p = (case files p of None \<Rightarrow> Undefined | Some v \<Rightarrow> v)"

text \<open>\<^verbatim>\<open>String.prototype.startsWith\<close> and \<^verbatim>\<open>endsWith\<close>.\<close>

definition startsWith :: "string \<Rightarrow> string \<Rightarrow> bool" where
  "startsWith s p = (take (length p) s = p)"

definition endsWith :: "string \<Rightarrow> string \<Rightarrow> bool" where
  "endsWith s p = (length p \<le> length s \<and> drop (length s - length p) s = p)"

text \<open>\<^verbatim>\<open>s.split('/')\<close>: the empty string splits into one empty part.\<close>

fun split_slash :: "string \<Rightarrow> string list" where
  "split_slash [] = [[]]"
| "split_slash (c # cs) =
     (if c = CHR ''/'' then [] # split_slash cs
      else (case split_slash cs of
              [] \<Rightarrow> [[c]]
            | part # parts \<Rightarrow> (c # part) # parts))"

text \<open>\<^verbatim>\<open>parts.join('/')\<close>: the empty array joins to the empty string.\<close>

fun join_slash :: "string list \<Rightarrow> string" where
  "join_slash [] = []"
| "join_slash [part] = part"
| "join_slash (part # parts) = part @ ''/'' @ join_slash parts"

datatype error =
    EmptyResponse
  | SyntaxError string
  | ServiceError string
  | UnknownAction jsval
  | ModuleNotFound string string string
  | BundleModuleNotFound string string
  | TypeError string
  | CompileError string
  | RuntimeError string

section \<open>Evolution engine, single-target protocol (the bootloader)\<close>

text \<open>
  The object that \<^verbatim>\<open>evolveCode\<close> returns: the parsed response of the generative
  service. The response schema requires \<^verbatim>\<open>action\<close> and \<^verbatim>\<open>filePath\<close> and leaves
  \<^verbatim>\<open>code\<close> optional; the code that applies it still has a branch for any other
  action value.
\<close>

record evolution =
  action :: jsval
  filePath :: string
  code :: jsval

text \<open>
  The tail of \<^verbatim>\<open>evolveCode\<close>, after the service call returned \<^verbatim>\<open>response\<close>:
  \<^verbatim>\<open>
  const jsonText = response.text;
  if (!jsonText) throw new Error("Received an empty response from the AI.");
  const evolution = JSON.parse(jsonText);
  if (evolution.action === 'DELETE') evolution.code = '';
  return evolution;
  \<close>
  \<^verbatim>\<open>response.text\<close> is a string or \<^verbatim>\<open>undefined\<close>. \<^verbatim>\<open>JSON.parse\<close> belongs to the
  platform and is a parameter: it throws (\<open>Inl\<close>) or yields the response object. (A
  text that parses to \<^verbatim>\<open>null\<close> makes the read of \<^verbatim>\<open>evolution.action\<close> throw, at
  the same place and with the same effect.)
\<close>

definition evolveCode_receive ::
  "(string \<Rightarrow> error + evolution) \<Rightarrow> jsval \<Rightarrow> error + evolution" where
  "evolveCode_receive JSON_parse jsonText =
     (if \<not> truthy jsonText then Inl EmptyResponse
      else (case jsonText of
              Undefined \<Rightarrow> Inl EmptyResponse
            | Str text \<Rightarrow>
                (case JSON_parse text of
                   Inl e \<Rightarrow> Inl e
                 | Inr evolution \<Rightarrow>
                     Inr (if action evolution = Str ''DELETE''
                          then evolution\<lparr>code := Str ''''\<rparr>
                          else evolution))))"

text \<open>
  The state updater that \<^verbatim>\<open>handleEvolveRequest\<close> passes to \<^verbatim>\<open>setProjectFiles\<close>:
  \<^verbatim>\<open>
  prevFiles => {
    const newFiles = { ...prevFiles };
    switch(evolution.action) {
      case 'UPDATE':
      case 'CREATE': newFiles[evolution.filePath] = evolution.code; break;
      case 'DELETE': delete newFiles[evolution.filePath]; break;
      default: throw new Error(`Unknown action from AI: ${evolution.action}`);
    }
    return newFiles;
  }
  \<close>
  It works on a copy, so \<^verbatim>\<open>prevFiles\<close> itself is never changed. The copy has the
  own keys of \<^verbatim>\<open>prevFiles\<close>. An assignment stores under the key given, with one
  exception: when the key is \<^verbatim>\<open>__proto__\<close> and the tree has no own key of that name,
  the assignment reaches the setter inherited from \<^verbatim>\<open>Object.prototype\<close>, which
  ignores a value that is a string or \<^verbatim>\<open>undefined\<close>, and nothing is stored.
  \<^verbatim>\<open>delete\<close> removes an own key and does nothing otherwise.
\<close>

definition applyEvolution :: "VFS \<Rightarrow> evolution \<Rightarrow> error + VFS" where
  "applyEvolution prevFiles evolution =
     (if action evolution = Str ''UPDATE'' \<or> action evolution = Str ''CREATE''
      then (if filePath evolution = ''__proto__'' \<and> prevFiles ''__proto__'' = None
            then Inr prevFiles
            else Inr (prevFiles(filePath evolution \<mapsto> code evolution)))
      else if action evolution = Str ''DELETE''
      then Inr (prevFiles(filePath evolution := None))
      else Inl (UnknownAction (action evolution)))"

text \<open>What the bootloader shows in \<^verbatim>\<open>bootError\<close>: the refusal of an empty goal, or
  \<^verbatim>\<open>Evolution failed:\<close> followed by the message of the error caught.\<close>

datatype boot_message = GoalMustBeSpecified | EvolutionFailed error

text \<open>
  The state of the bootloader component that an evolution touches. \<^verbatim>\<open>bootError\<close> is
  the message the bootloader shows; \<^verbatim>\<open>renderError\<close> is an error thrown while React
  runs a state updater, which happens outside the handler's \<^verbatim>\<open>try\<close> block and is
  shown by the error boundary of the BIOS. In both cases no new \<^verbatim>\<open>projectFiles\<close> is
  committed.
\<close>

record bootloader_state =
  projectFiles :: VFS
  isEvolving :: bool
  bootError :: "boot_message option"
  renderError :: "error option"

text \<open>What the generative service call itself does: it throws, or it returns a
  response whose \<^verbatim>\<open>text\<close> is a string or \<^verbatim>\<open>undefined\<close>.\<close>

datatype service_reply = ServiceThrows string | Response jsval

text \<open>
  \<^verbatim>\<open>handleEvolveRequest(filePath, goal)\<close>, with the reply of the service as an input;
  \<^verbatim>\<open>filePath\<close> only goes into the prompt and is left out. An empty goal is refused before the service is called. An error of \<^verbatim>\<open>evolveCode\<close>
  is caught and becomes \<^verbatim>\<open>bootError\<close>; \<^verbatim>\<open>finally\<close> clears \<^verbatim>\<open>isEvolving\<close>.
\<close>

definition handleEvolveRequest ::
  "(string \<Rightarrow> error + evolution) \<Rightarrow> bootloader_state \<Rightarrow> string \<Rightarrow> service_reply
     \<Rightarrow> bootloader_state" where
  "handleEvolveRequest JSON_parse st goal reply =
     (if goal = [] then st\<lparr>bootError := Some GoalMustBeSpecified\<rparr>
      else
        (let received =
               (case reply of
                  ServiceThrows m \<Rightarrow> Inl (ServiceError m)
                | Response jsonText \<Rightarrow> evolveCode_receive JSON_parse jsonText)
         in case received of
              Inl e \<Rightarrow>
                st\<lparr>isEvolving := False,
                   bootError := Some (EvolutionFailed e)\<rparr>
            | Inr evolution \<Rightarrow>
                (case applyEvolution (projectFiles st) evolution of
                   Inl e \<Rightarrow>
                     st\<lparr>isEvolving := False, bootError := None, renderError := Some e\<rparr>
                 | Inr newFiles \<Rightarrow>
                     st\<lparr>projectFiles := newFiles, isEvolving := False, bootError := None\<rparr>)))"

text \<open>An error is surfaced when the bootloader shows a message or the error boundary
  caught one.\<close>

definition error_surfaced :: "bootloader_state \<Rightarrow> bool" where
  "error_surfaced st = (bootError st \<noteq> None \<or> renderError st \<noteq> None)"

text \<open>
  The file explorer of the seed project renders a delete control beside a path only
  when \<^verbatim>\<open>!path.startsWith('/boot/')\<close>; the control asks the evolution engine to
  delete that path. \<open>keys\<close> is \<^verbatim>\<open>Object.keys(files)\<close>.
\<close>

definition boot_critical :: "path \<Rightarrow> bool" where
  "boot_critical p = startsWith p ''/boot/''"

definition FileExplorer_delete_controls :: "path list \<Rightarrow> path list" where
  "FileExplorer_delete_controls keys = filter (\<lambda>p. \<not> boot_critical p) keys"

section \<open>Evolution engine, multi-target protocol (the kernel)\<close>

text \<open>
  \<^verbatim>\<open>handleEvolve\<close> of the kernel parses the response and hands the whole list of
  changes to the callback it was given:
  \<^verbatim>\<open>
  const result = JSON.parse(response.text);
  if (result.changes && result.changes.length > 0) {
    onVfsBatchUpdate(result.changes);
    ...
  \<close>
  A change is a pair of \<^verbatim>\<open>filePath\<close> and \<^verbatim>\<open>content\<close>.
\<close>

type_synonym change = "path \<times> string"

text \<open>
  Modelled from the spec: \<^verbatim>\<open>onVfsBatchUpdate\<close> is a property of the \<^verbatim>\<open>Bootloader\<close>
  interface that the kernel receives; the function behind it is not among the source
  files. The spec says of the multi-target protocol: "upsert every listed path", "all
  are pure overwrite/creates", the response being "an ordered list of whole-file
  \<open>{path, content}\<close> replacements". The entries are upserted one after the other in
  list order.
\<close>

fun onVfsBatchUpdate :: "VFS \<Rightarrow> change list \<Rightarrow> VFS" where
  "onVfsBatchUpdate vfs [] = vfs"
| "onVfsBatchUpdate vfs ((p, c) # changes) = onVfsBatchUpdate (vfs(p \<mapsto> Str c)) changes"

text \<open>The applying step of \<^verbatim>\<open>handleEvolve\<close>: \<open>None\<close> is a result without a
  \<^verbatim>\<open>changes\<close> property; an absent or empty list changes nothing.\<close>

definition handleEvolve_apply :: "VFS \<Rightarrow> change list option \<Rightarrow> VFS" where
  "handleEvolve_apply vfs changes =
     (case changes of
        None \<Rightarrow> vfs
      | Some cs \<Rightarrow> if length cs > 0 then onVfsBatchUpdate vfs cs else vfs)"

section \<open>The BIOS\<close>

text \<open>
  \<^verbatim>\<open>sanitizeCodeForBabel\<close> is one global regular-expression replacement:
  \<^verbatim>\<open>code.replace(/\\(?![nt'"\\/]|u[0-9a-fA-F]{4})/g, '\\\\')\<close>.
  A match is a single backslash at which the negative lookahead succeeds; the
  lookahead consumes nothing, so the scan goes on at the very next character, and
  every match is replaced by two backslashes.
\<close>

definition backslash :: char where
  "backslash = CHR 0x5C"

definition isHexDigit :: "char \<Rightarrow> bool" where
  "isHexDigit c = (c \<in> set ''0123456789abcdefABCDEF'')"

text \<open>The body of the lookahead, \<^verbatim>\<open>[nt'"\\/]|u[0-9a-fA-F]{4}\<close>, matched at the start of
  \<open>rest\<close>.\<close>

definition escapeAhead :: "string \<Rightarrow> bool" where
  "escapeAhead rest =
     (case rest of
        [] \<Rightarrow> False
      | c # cs \<Rightarrow>
          c \<in> {CHR ''n'', CHR ''t'', CHR 0x27, CHR 0x22, backslash, CHR ''/''}
          \<or> (c = CHR ''u'' \<and> 4 \<le> length cs \<and> list_all isHexDigit (take 4 cs)))"

fun sanitizeCodeForBabel :: "string \<Rightarrow> string" where
  "sanitizeCodeForBabel [] = []"
| "sanitizeCodeForBabel (c # rest) =
     (if c = backslash \<and> \<not> escapeAhead rest
      then backslash # backslash # sanitizeCodeForBabel rest
      else c # sanitizeCodeForBabel rest)"

text \<open>The number of matches of the regular expression in a string: the backslashes at
  which the lookahead body does not match.\<close>

fun offending :: "string \<Rightarrow> nat" where
  "offending [] = 0"
| "offending (c # rest) =
     (if c = backslash \<and> \<not> escapeAhead rest then Suc (offending rest) else offending rest)"

text \<open>
  The initial value of the \<^verbatim>\<open>projectFiles\<close> state of \<^verbatim>\<open>App\<close>:
  \<^verbatim>\<open>
  try {
    const saved = window.localStorage.getItem(LOCAL_STORAGE_KEY);
    return saved ? JSON.parse(saved) : INITIAL_PROJECT;
  } catch (e) { ...; return INITIAL_PROJECT; }
  \<close>
  \<^verbatim>\<open>getItem\<close> throws, or returns \<^verbatim>\<open>null\<close> for an absent key, or returns the stored
  string. \<^verbatim>\<open>JSON.parse\<close> is a parameter, as is the seed tree \<^verbatim>\<open>INITIAL_PROJECT\<close>.
\<close>

datatype getItem_result = GetItemThrows | Null | Saved string

definition initialProjectFiles ::
  "'files \<Rightarrow> (string \<Rightarrow> error + 'files) \<Rightarrow> getItem_result \<Rightarrow> 'files" where
  "initialProjectFiles INITIAL_PROJECT JSON_parse got =
     (case got of
        GetItemThrows \<Rightarrow> INITIAL_PROJECT
      | Null \<Rightarrow> INITIAL_PROJECT
      | Saved saved \<Rightarrow>
          if saved \<noteq> []
          then (case JSON_parse saved of
                  Inl e \<Rightarrow> INITIAL_PROJECT
                | Inr files \<Rightarrow> files)
          else INITIAL_PROJECT)"

section \<open>Module loader of the bootloader: \<^verbatim>\<open>customRequire\<close>\<close>

text \<open>
  What a \<^verbatim>\<open>require\<close> resolves to: an external capability handed over by name, or a
  file of the tree.
\<close>

datatype resolved = Capability string | File path

text \<open>
  The directory of the importer as a base URL:
  \<^verbatim>\<open>
  const pathParts = importerPath.split('/');
  pathParts.pop();
  const base = `file://${pathParts.join('/')}/`;
  \<close>
\<close>

definition importer_base :: "path \<Rightarrow> string" where
  "importer_base importerPath =
     ''file://'' @ join_slash (butlast (split_slash importerPath)) @ ''/''"

definition possiblePaths :: "path \<Rightarrow> path list" where
  "possiblePaths baseResolvedPath =
     [baseResolvedPath,
      baseResolvedPath @ ''.tsx'',
      baseResolvedPath @ ''.ts'',
      baseResolvedPath @ ''/index.tsx'',
      baseResolvedPath @ ''/index.ts'']"

text \<open>
  The probing loop. \<open>None\<close> is the initial \<^verbatim>\<open>null\<close> of \<^verbatim>\<open>finalResolvedPath\<close>.
  \<^verbatim>\<open>
  for (const p of possiblePaths) {
    if (projectFiles.hasOwnProperty(p)) { finalResolvedPath = p; break; }
  }
  \<close>
  \<^verbatim>\<open>projectFiles.hasOwnProperty\<close> is the inherited method, which tests membership in
  the domain of the map, unless the tree has an own key \<^verbatim>\<open>hasOwnProperty\<close>: then the
  expression reads the value stored there, a string or \<^verbatim>\<open>undefined\<close>, and calling
  it throws a \<^verbatim>\<open>TypeError\<close> at the first candidate.
\<close>

fun probe :: "VFS \<Rightarrow> path list \<Rightarrow> error + path option" where
  "probe files [] = Inr None"
| "probe files (p # ps) =
     (if ''hasOwnProperty'' \<in> dom files
      then Inl (TypeError ''projectFiles.hasOwnProperty is not a function'')
      else if p \<in> dom files then Inr (Some p)
      else probe files ps)"

text \<open>
  The resolving part of \<^verbatim>\<open>customRequire(importerPath, importPath)\<close>.
  \<^verbatim>\<open>new URL(importPath, base).pathname\<close> belongs to the platform and is the parameter
  \<open>URL_pathname\<close>; it yields the path of the resolved URL or throws. The test
  \<^verbatim>\<open>!finalResolvedPath\<close> is true for \<^verbatim>\<open>null\<close> and for the empty string.
\<close>

definition customRequire_resolve ::
  "(string \<Rightarrow> string \<Rightarrow> error + string) \<Rightarrow> VFS \<Rightarrow> path \<Rightarrow> string \<Rightarrow> error + resolved" where
  "customRequire_resolve URL_pathname files importerPath importPath =
     (if importPath = ''react'' then Inr (Capability ''react'')
      else
        (case URL_pathname importPath (importer_base importerPath) of
           Inl e \<Rightarrow> Inl e
         | Inr baseResolvedPath \<Rightarrow>
             (case probe files (possiblePaths baseResolvedPath) of
                Inl e \<Rightarrow> Inl e
              | Inr None \<Rightarrow> Inl (ModuleNotFound importPath importerPath baseResolvedPath)
              | Inr (Some finalResolvedPath) \<Rightarrow>
                  if finalResolvedPath = []
                  then Inl (ModuleNotFound importPath importerPath baseResolvedPath)
                  else Inr (File finalResolvedPath))))"

text \<open>
  Executing a module. The transpiler and \<^verbatim>\<open>new Function\<close> turn the text of a file into
  a function of \<^verbatim>\<open>require\<close>, \<^verbatim>\<open>module\<close> and \<^verbatim>\<open>exports\<close>. What such a body can do
  to the loader is: call \<^verbatim>\<open>require\<close>, set a property of the object bound to
  \<^verbatim>\<open>exports\<close>, replace \<^verbatim>\<open>module.exports\<close> by a new object, or throw. A compiled
  body is a list of such steps; \<open>Babel_transform\<close> (file content and file name to
  body, or a compile error) is a parameter.
\<close>

datatype stmt =
    Require string
  | SetExport string string
  | AssignModuleExports
  | Throw string

text \<open>
  Objects are identified by references. \<^verbatim>\<open>moduleCache\<close> maps a path to its module
  object, given by the current value of that object's \<^verbatim>\<open>exports\<close> property.
  \<open>executed\<close> and \<open>observed\<close> record what happened: the paths whose bodies were
  started, and for every \<^verbatim>\<open>require\<close> call that returned inside a body the module it
  was made in, the specifier and the value returned.
\<close>

type_synonym ref = nat

datatype required = External string | Exports ref | NoExports

record loader_state =
  moduleCache :: "path \<rightharpoonup> ref"
  properties :: "ref \<rightharpoonup> (string \<rightharpoonup> string)"
  next_ref :: ref
  executed :: "path list"
  observed :: "(path \<times> string \<times> required) list"

definition initial_loader_state :: loader_state where
  "initial_loader_state =
     \<lparr>moduleCache = Map.empty, properties = Map.empty, next_ref = 0,
      executed = [], observed = []\<rparr>"

text \<open>
  \<^verbatim>\<open>customRequire\<close> after resolution, and the execution of a body:
  \<^verbatim>\<open>
  if (moduleCache[finalResolvedPath]) return moduleCache[finalResolvedPath].exports;
  const fileContent = projectFiles[finalResolvedPath];
  const transformedCode = Babel.transform(fileContent, {...}).code;
  const module = { exports: {} };
  moduleCache[finalResolvedPath] = module;
  const factory = new Function('React', 'require', 'module', 'exports', transformedCode);
  const scopedRequire = (p) => customRequire(finalResolvedPath, p);
  factory(React, scopedRequire, module, module.exports);
  return module.exports;
  \<close>
  The recursion through nested \<^verbatim>\<open>require\<close> calls is bounded by \<open>fuel\<close>, the depth of
  nesting allowed; \<open>None\<close> means the bound was reached. An error ends the whole pass.
  The value returned is \<^verbatim>\<open>module.exports\<close> as it is after the body ran, which is what
  the cache holds for the path (an entry of the cache is never removed).
  \<^verbatim>\<open>moduleCache\<close> is created as \<^verbatim>\<open>{}\<close>: for a path that names an inherited property
  the first test finds the inherited value, whose \<^verbatim>\<open>exports\<close> is \<^verbatim>\<open>undefined\<close>, and
  that is returned (\<open>NoExports\<close>).
\<close>

fun customRequire ::
    "nat \<Rightarrow> (string \<Rightarrow> string \<Rightarrow> error + string) \<Rightarrow> (jsval \<Rightarrow> path \<Rightarrow> error + stmt list)
       \<Rightarrow> VFS \<Rightarrow> loader_state \<Rightarrow> path \<Rightarrow> string
       \<Rightarrow> (error + required \<times> loader_state) option"
  and run_body ::
    "nat \<Rightarrow> (string \<Rightarrow> string \<Rightarrow> error + string) \<Rightarrow> (jsval \<Rightarrow> path \<Rightarrow> error + stmt list)
       \<Rightarrow> VFS \<Rightarrow> path \<Rightarrow> ref \<Rightarrow> stmt list \<Rightarrow> loader_state
       \<Rightarrow> (error + loader_state) option"
where
  "customRequire 0 URL_pathname Babel_transform files st importerPath importPath = None"
| "customRequire (Suc fuel) URL_pathname Babel_transform files st importerPath importPath =
     (case customRequire_resolve URL_pathname files importerPath importPath of
        Inl e \<Rightarrow> Some (Inl e)
      | Inr (Capability name) \<Rightarrow> Some (Inr (External name, st))
      | Inr (File finalResolvedPath) \<Rightarrow>
          (case moduleCache st finalResolvedPath of
             Some cached \<Rightarrow> Some (Inr (Exports cached, st))
           | None \<Rightarrow>
               if finalResolvedPath \<in> set Object_prototype_keys
               then Some (Inr (NoExports, st))
               else
               (case Babel_transform (js_get files finalResolvedPath) finalResolvedPath of
                  Inl e \<Rightarrow> Some (Inl e)
                | Inr body \<Rightarrow>
                    (let exports = next_ref st;
                         st1 = st\<lparr>moduleCache := (moduleCache st)(finalResolvedPath \<mapsto> exports),
                                  properties := (properties st)(exports \<mapsto> Map.empty),
                                  next_ref := Suc exports,
                                  executed := executed st @ [finalResolvedPath]\<rparr>
                     in case run_body fuel URL_pathname Babel_transform files
                               finalResolvedPath exports body st1 of
                          None \<Rightarrow> None
                        | Some (Inl e) \<Rightarrow> Some (Inl e)
                        | Some (Inr st2) \<Rightarrow>
                            Some (Inr (Exports (case moduleCache st2 finalResolvedPath of
                                                  None \<Rightarrow> exports
                                                | Some final \<Rightarrow> final), st2))))))"
| "run_body fuel URL_pathname Babel_transform files self exports [] st = Some (Inr st)"
| "run_body fuel URL_pathname Babel_transform files self exports (Require p # rest) st =
     (case customRequire fuel URL_pathname Babel_transform files st self p of
        None \<Rightarrow> None
      | Some (Inl e) \<Rightarrow> Some (Inl e)
      | Some (Inr (v, st')) \<Rightarrow>
          run_body fuel URL_pathname Babel_transform files self exports rest
            (st'\<lparr>observed := observed st' @ [(self, p, v)]\<rparr>))"
| "run_body fuel URL_pathname Babel_transform files self exports (SetExport name v # rest) st =
     run_body fuel URL_pathname Babel_transform files self exports rest
       (st\<lparr>properties := (properties st)
             (exports \<mapsto> (case properties st exports of
                             None \<Rightarrow> [name \<mapsto> v]
                           | Some props \<Rightarrow> props(name \<mapsto> v)))\<rparr>)"
| "run_body fuel URL_pathname Babel_transform files self exports (AssignModuleExports # rest) st =
     run_body fuel URL_pathname Babel_transform files self exports rest
       (st\<lparr>moduleCache := (moduleCache st)(self \<mapsto> next_ref st),
           properties := (properties st)(next_ref st \<mapsto> Map.empty),
           next_ref := Suc (next_ref st)\<rparr>)"
| "run_body fuel URL_pathname Babel_transform files self exports (Throw m # rest) st =
     Some (Inl (RuntimeError m))"

section \<open>Module resolution inside the bundle of the live preview\<close>

text \<open>
  \<^verbatim>\<open>bundleAndRun\<close> of the kernel first fills the table \<^verbatim>\<open>transpiledVFS\<close> with the
  transpiled text of every file whose path ends in \<^verbatim>\<open>.ts\<close> or \<^verbatim>\<open>.tsx\<close>:
  \<^verbatim>\<open>
  for (const path in vfs) {
    if (path.endsWith('.ts') || path.endsWith('.tsx')) {
      transpiledVFS[path] = Babel.transform(vfs[path], {...}).code;
    }
  }
  \<close>
  A transform that throws aborts \<^verbatim>\<open>bundleAndRun\<close> before anything is resolved, so the
  resolver only ever runs on a tree whose files were all transformed; \<open>Babel_code\<close>
  (content and file name to transpiled text) is a total parameter here.
\<close>

definition transpiledVFS :: "(jsval \<Rightarrow> path \<Rightarrow> string) \<Rightarrow> VFS \<Rightarrow> (path \<rightharpoonup> string)" where
  "transpiledVFS Babel_code vfs p =
     (if endsWith p ''.ts'' \<or> endsWith p ''.tsx''
      then (case vfs p of None \<Rightarrow> None | Some src \<Rightarrow> Some (Babel_code src p))
      else None)"

text \<open>
  The \<^verbatim>\<open>modules\<close> object of the bundle is not this table itself. The bundle is a
  script text, and \<^verbatim>\<open>modules\<close> is filled by statements generated into that text,
  one for each entry of the table:
  \<^verbatim>\<open>
  modules['${path}'] = ${JSON.stringify(code)};
  \<close>
  The path is spliced between single quotes as it is, and the whole script text is
  then put into the preview document by
  \<^verbatim>\<open>htmlContent.replace('</body>', `<script>${bundle}</script></body>`)\<close>. A spliced
  text comes out as the string it was only if nothing in it is read as something
  else on the way: a backslash in a path starts an escape sequence, a quote or a line
  break in a path ends the literal, a dollar sign followed by a dollar sign, an
  ampersand, a backquote or a quote is a pattern of \<^verbatim>\<open>replace\<close>, and a \<^verbatim>\<open></\<close> or
  \<^verbatim>\<open><!\<close> can end or mask the script element.
\<close>

fun has_sub :: "string \<Rightarrow> string \<Rightarrow> bool" where
  "has_sub sub [] = (sub = [])"
| "has_sub sub (c # s) = (startsWith (c # s) sub \<or> has_sub sub s)"

definition embed_safe :: "string \<Rightarrow> bool" where
  "embed_safe s =
     (\<not> has_sub ''</'' s \<and> \<not> has_sub ''<!'' s
      \<and> \<not> has_sub ''$$'' s \<and> \<not> has_sub ''$&'' s
      \<and> \<not> has_sub [CHR ''$'', CHR 0x60] s \<and> \<not> has_sub [CHR ''$'', CHR 0x27] s)"

definition splice_safe :: "path \<Rightarrow> bool" where
  "splice_safe p =
     (list_all (\<lambda>c. c \<noteq> backslash \<and> c \<noteq> CHR 0x27 \<and> c \<noteq> CHR 0x0A \<and> c \<noteq> CHR 0x0D
                    \<and> c \<noteq> CHR ''$'' \<and> c \<noteq> CHR ''<'') p)"

text \<open>
  The \<^verbatim>\<open>modules\<close> object of the bundle generated for a tree; \<open>keys\<close> is the list of
  the own keys of the tree, which the loop above runs through. There is no bundle
  when the entry point is missing:
  \<^verbatim>\<open>
  const entryPoint = '/index.tsx';
  if (!transpiledVFS[entryPoint]) throw new Error('Entry point /index.tsx not found in VFS.');
  \<close>
  When every path and every transpiled text of the table survives the splicing,
  \<^verbatim>\<open>modules\<close> has the entries of the table. Otherwise the script is another text
  than the one intended, or none that parses; this model does not describe such a
  bundle. Both cases are \<open>None\<close>. (Whether the preview document runs the script it is
  given, which depends on \<^verbatim>\<open>/index.html\<close>, on the frame and on the environment value
  spliced into the script, is outside the model.)
\<close>

definition bundle_modules ::
  "(jsval \<Rightarrow> path \<Rightarrow> string) \<Rightarrow> VFS \<Rightarrow> path list \<Rightarrow> (path \<rightharpoonup> string) option" where
  "bundle_modules Babel_code vfs keys =
     (case transpiledVFS Babel_code vfs ''/index.tsx'' of
        None \<Rightarrow> None
      | Some entry \<Rightarrow>
          if entry = [] then None
          else if list_all
                    (\<lambda>p. case transpiledVFS Babel_code vfs p of
                            None \<Rightarrow> True
                          | Some js \<Rightarrow> splice_safe p \<and> embed_safe js)
                    keys
          then Some (transpiledVFS Babel_code vfs)
          else None)"

text \<open>
  Inside the bundle \<^verbatim>\<open>modules\<close> is created as \<^verbatim>\<open>{}\<close>, so it has the inherited
  properties as well. Truthiness of \<^verbatim>\<open>modules[p]\<close>: an inherited property, or a file
  whose transpiled text is not empty.
\<close>

definition modules_truthy :: "(path \<rightharpoonup> string) \<Rightarrow> path \<Rightarrow> bool" where
  "modules_truthy modules p =
     (p \<in> set Object_prototype_keys
      \<or> (case modules p of None \<Rightarrow> False | Some js \<Rightarrow> js \<noteq> []))"

text \<open>
  The loop of \<^verbatim>\<open>resolvePath\<close> over the parts of the specifier; \<^verbatim>\<open>pop\<close> on an empty
  stack does nothing.
  \<^verbatim>\<open>
  for (const part of parts) {
    if (part === '..') stack.pop();
    else if (part !== '.') stack.push(part);
  }
  \<close>
\<close>

fun resolve_parts :: "string list \<Rightarrow> string list \<Rightarrow> string list" where
  "resolve_parts stack [] = stack"
| "resolve_parts stack (part # parts) =
     (if part = ''..'' then resolve_parts (butlast stack) parts
      else if part \<noteq> ''.'' then resolve_parts (stack @ [part]) parts
      else resolve_parts stack parts)"

text \<open>
  \<^verbatim>\<open>
  function resolvePath(base, relative) {
    if (!relative.startsWith('.')) return relative;
    const stack = base.split('/').slice(0, -1);
    const parts = relative.split('/');
    for (const part of parts) { ... }
    let path = stack.join('/');
    if (!path.endsWith('.tsx') && !path.endsWith('.ts')) {
      if (modules[path + '.tsx']) path += '.tsx';
      else if (modules[path + '.ts']) path += '.ts';
    }
    return path;
  }
  \<close>
\<close>

definition resolvePath :: "(path \<rightharpoonup> string) \<Rightarrow> path \<Rightarrow> string \<Rightarrow> path" where
  "resolvePath modules base relative =
     (if \<not> startsWith relative ''.'' then relative
      else
        (let stack = butlast (split_slash base);
             parts = split_slash relative;
             path = join_slash (resolve_parts stack parts)
         in if \<not> endsWith path ''.tsx'' \<and> \<not> endsWith path ''.ts''
            then (if modules_truthy modules (path @ ''.tsx'') then path @ ''.tsx''
                  else if modules_truthy modules (path @ ''.ts'') then path @ ''.ts''
                  else path)
            else path))"

text \<open>
  The resolving part of the \<^verbatim>\<open>require\<close> that \<^verbatim>\<open>executeModule(path, code)\<close> hands to a
  module of the bundle:
  \<^verbatim>\<open>
  if (relativePath === 'react') return ParentReact;
  if (relativePath === '@google/genai') return ParentGoogleGenAIModule;
  const absolutePath = resolvePath(path, relativePath);
  if (!modules[absolutePath]) throw new Error(`Module not found: ...`);
  \<close>
\<close>

definition bundle_resolve :: "(path \<rightharpoonup> string) \<Rightarrow> path \<Rightarrow> string \<Rightarrow> error + resolved" where
  "bundle_resolve modules path relativePath =
     (if relativePath = ''react'' then Inr (Capability ''react'')
      else if relativePath = ''@google/genai'' then Inr (Capability ''@google/genai'')
      else
        (let absolutePath = resolvePath modules path relativePath
         in if \<not> modules_truthy modules absolutePath
            then Inl (BundleModuleNotFound absolutePath path)
            else Inr (File absolutePath)))"

text \<open>Two resolutions have the same outcome when they give the same result or both
  fail; the errors themselves differ in wording.\<close>

definition outcome :: "error + resolved \<Rightarrow> resolved option" where
  "outcome r = (case r of Inl e \<Rightarrow> None | Inr v \<Rightarrow> Some v)"

section \<open>The platform on plain inputs\<close>

text \<open>
  The parameters standing for the platform are instantiated below for the concrete
  examples. \<open>URL_pathname_plain\<close> is the path that the URL parser gives for
  \<^verbatim>\<open>new URL(url, base).pathname\<close> when \<open>base\<close> is \<^verbatim>\<open>file://\<close> followed by an absolute
  directory path and a slash, and \<open>url\<close> consists of letters, digits, dots, dashes,
  underscores and single slashes: an input that starts with a slash replaces the
  path, any other input is resolved against the base path without its last segment;
  a segment \<^verbatim>\<open>..\<close> removes the last segment (if any), a segment \<^verbatim>\<open>.\<close> is
  skipped, and either of them in last position leaves an empty last segment. Inputs
  with a scheme, a host, a query, a fragment, backslashes or characters that are
  percent-encoded are outside this fragment.
\<close>

fun url_path_segments :: "string list \<Rightarrow> string list \<Rightarrow> string list" where
  "url_path_segments path [] = path"
| "url_path_segments path (seg # rest) =
     (if seg = ''..''
      then url_path_segments (butlast path @ (if rest = [] then [[]] else [])) rest
      else if seg = ''.''
      then url_path_segments (path @ (if rest = [] then [[]] else [])) rest
      else url_path_segments (path @ [seg]) rest)"

definition url_serialize_path :: "string list \<Rightarrow> string" where
  "url_serialize_path segs = concat (map (\<lambda>seg. ''/'' @ seg) segs)"

definition URL_pathname_plain :: "string \<Rightarrow> string \<Rightarrow> error + string" where
  "URL_pathname_plain url base =
     (let base_path = url_path_segments [] (split_slash (drop 8 base))
      in Inr (url_serialize_path
                (if startsWith url ''/''
                 then url_path_segments [] (split_slash (drop 1 url))
                 else url_path_segments (butlast base_path) (split_slash url))))"

text \<open>
  \<open>transform_single_require\<close> is what the transpiler and \<^verbatim>\<open>new Function\<close> make of a
  file that consists of one call \<^verbatim>\<open>require("...")\<close>: a body that makes this call.
  Other files are outside this fragment.
\<close>

definition transform_single_require :: "jsval \<Rightarrow> path \<Rightarrow> error + stmt list" where
  \<open>transform_single_require content filename =
     (case content of
        Undefined \<Rightarrow> Inl (CompileError ''not a string'')
      | Str src \<Rightarrow>
          if startsWith src ''require("'' \<and> endsWith src ''")'' \<and> 11 \<le> length src
          then Inr [Require (take (length src - 11) (drop 9 src))]
          else Inl (CompileError ''not a single require call''))\<close>

text \<open>The text of a file taken as its own transpiled text.\<close>

definition code_as_is :: "jsval \<Rightarrow> path \<Rightarrow> string" where
  "code_as_is content filename = (case content of Undefined \<Rightarrow> [] | Str src \<Rightarrow> src)"

text \<open>The tree of the cycle test: \<^verbatim>\<open>/a\<close> requires \<^verbatim>\<open>/b\<close> and \<^verbatim>\<open>/b\<close> requires
  \<^verbatim>\<open>/a\<close>.\<close>

definition cycle_vfs :: VFS where
  \<open>cycle_vfs = [''/a'' \<mapsto> Str ''require("/b")'', ''/b'' \<mapsto> Str ''require("/a")'']\<close>

section \<open>Theorems\<close>

subsection \<open>Applying an edit action\<close>

lemma absolute_not_proto: "startsWith p ''/'' \<Longrightarrow> p \<noteq> ''__proto__''"
  by (auto simp: startsWith_def)

lemma applyEvolution_upsert:
  "action ev = Str ''UPDATE'' \<or> action ev = Str ''CREATE'' \<Longrightarrow> filePath ev \<noteq> ''__proto__'' \<Longrightarrow>
     applyEvolution files ev = Inr (files(filePath ev \<mapsto> code ev))"
  by (auto simp: applyEvolution_def)

lemma applyEvolution_proto_ignored:
  "action ev = Str ''UPDATE'' \<or> action ev = Str ''CREATE'' \<Longrightarrow> filePath ev = ''__proto__'' \<Longrightarrow>
   files ''__proto__'' = None \<Longrightarrow> applyEvolution files ev = Inr files"
  by (auto simp: applyEvolution_def)

lemma applyEvolution_delete:
  "action ev = Str ''DELETE'' \<Longrightarrow>
     applyEvolution files ev = Inr (files(filePath ev := None))"
  by (simp add: applyEvolution_def)

lemma applyEvolution_unknown:
  "action ev \<noteq> Str ''UPDATE'' \<Longrightarrow> action ev \<noteq> Str ''CREATE'' \<Longrightarrow>
   action ev \<noteq> Str ''DELETE'' \<Longrightarrow>
     applyEvolution files ev = Inl (UnknownAction (action ev))"
  by (simp add: applyEvolution_def)

text \<open>
  C6. For a path \<open>p\<close> of the data model, that is, a string that begins with a slash,
  applying \<open>Update{p, c}\<close> or \<open>Create{p, c}\<close> to any tree succeeds with a tree in
  which reading \<open>p\<close> gives exactly \<open>c\<close>, and every other path holds what it held
  before.
\<close>

theorem C6_upsert_reads_back:
  assumes "action ev = Str ''UPDATE'' \<or> action ev = Str ''CREATE''"
    and "startsWith (filePath ev) ''/''"
  shows "\<exists>files'. applyEvolution files ev = Inr files'
           \<and> files' (filePath ev) = Some (code ev)
           \<and> js_get files' (filePath ev) = code ev
           \<and> (\<forall>q. q \<noteq> filePath ev \<longrightarrow> files' q = files q)"
proof -
  from assms(2) have "filePath ev \<noteq> ''__proto__''"
    by (rule absolute_not_proto)
  with assms(1) have "applyEvolution files ev = Inr (files(filePath ev \<mapsto> code ev))"
    by (rule applyEvolution_upsert)
  then show ?thesis by (simp add: js_get_def)
qed

theorem C6_upsert_reads_back_witness:
  "\<exists>files'.
      applyEvolution [''/a.tsx'' \<mapsto> Str ''old'', ''/b.tsx'' \<mapsto> Str ''keep'']
        \<lparr>action = Str ''UPDATE'', filePath = ''/a.tsx'', code = Str ''new''\<rparr> = Inr files'
      \<and> js_get files' ''/a.tsx'' = Str ''new''
      \<and> files' ''/b.tsx'' = Some (Str ''keep'')"
proof -
  have h: "action \<lparr>action = Str ''UPDATE'', filePath = ''/a.tsx'', code = Str ''new''\<rparr>
             = Str ''UPDATE''
         \<or> action \<lparr>action = Str ''UPDATE'', filePath = ''/a.tsx'', code = Str ''new''\<rparr>
             = Str ''CREATE''"
    by simp
  have s: "startsWith
      (filePath \<lparr>action = Str ''UPDATE'', filePath = ''/a.tsx'', code = Str ''new''\<rparr>) ''/''"
    by (simp add: startsWith_def)
  from C6_upsert_reads_back
    [where ev = "\<lparr>action = Str ''UPDATE'', filePath = ''/a.tsx'', code = Str ''new''\<rparr>"
       and files = "[''/a.tsx'' \<mapsto> Str ''old'', ''/b.tsx'' \<mapsto> Str ''keep'']", OF h s]
  obtain files' where
    "applyEvolution [''/a.tsx'' \<mapsto> Str ''old'', ''/b.tsx'' \<mapsto> Str ''keep'']
        \<lparr>action = Str ''UPDATE'', filePath = ''/a.tsx'', code = Str ''new''\<rparr> = Inr files'"
    and "js_get files' ''/a.tsx'' = Str ''new''"
    and "\<forall>q. q \<noteq> ''/a.tsx'' \<longrightarrow>
           files' q = [''/a.tsx'' \<mapsto> Str ''old'', ''/b.tsx'' \<mapsto> Str ''keep''] q"
    by auto
  then show ?thesis by auto
qed

text \<open>
  C7. Applying \<open>Delete{p}\<close> succeeds with a tree in which \<open>p\<close> is absent and every
  other path is unchanged; when \<open>p\<close> was absent already the tree is the one given.
  On receipt, \<^verbatim>\<open>evolveCode\<close> sets the \<^verbatim>\<open>code\<close> of a \<^verbatim>\<open>DELETE\<close> response to the
  empty string.
\<close>

theorem C7_delete_removes:
  assumes "action ev = Str ''DELETE''"
  shows "(\<exists>files'. applyEvolution files ev = Inr files'
            \<and> files' (filePath ev) = None
            \<and> filePath ev \<notin> dom files'
            \<and> (\<forall>q. q \<noteq> filePath ev \<longrightarrow> files' q = files q)
            \<and> (files (filePath ev) = None \<longrightarrow> files' = files))
         \<and> (payload \<noteq> [] \<and> JSON_parse payload = Inr ev \<longrightarrow>
              evolveCode_receive JSON_parse (Str payload) = Inr (ev\<lparr>code := Str ''''\<rparr>))"
proof -
  have del: "applyEvolution files ev = Inr (files(filePath ev := None))"
    using assms by (rule applyEvolution_delete)
  have absent: "files (filePath ev) = None \<Longrightarrow> files(filePath ev := None) = files"
    by (rule ext) simp
  have recv: "payload \<noteq> [] \<and> JSON_parse payload = Inr ev \<longrightarrow>
      evolveCode_receive JSON_parse (Str payload) = Inr (ev\<lparr>code := Str ''''\<rparr>)"
    using assms by (simp add: evolveCode_receive_def)
  from del absent recv show ?thesis by (simp add: domIff)
qed

theorem C7_delete_removes_witness:
  "(\<exists>files'.
      applyEvolution [''/a.tsx'' \<mapsto> Str ''old'', ''/b.tsx'' \<mapsto> Str ''keep'']
        \<lparr>action = Str ''DELETE'', filePath = ''/a.tsx'', code = Str ''junk''\<rparr> = Inr files'
      \<and> files' ''/a.tsx'' = None
      \<and> files' ''/b.tsx'' = Some (Str ''keep''))
   \<and> applyEvolution [''/b.tsx'' \<mapsto> Str ''keep'']
        \<lparr>action = Str ''DELETE'', filePath = ''/a.tsx'', code = Str ''junk''\<rparr>
      = Inr [''/b.tsx'' \<mapsto> Str ''keep'']
   \<and> evolveCode_receive
        (\<lambda>t. Inr \<lparr>action = Str ''DELETE'', filePath = ''/a.tsx'', code = Str ''junk''\<rparr>)
        (Str ''{}'')
      = Inr \<lparr>action = Str ''DELETE'', filePath = ''/a.tsx'', code = Str ''''\<rparr>"
proof -
  have h: "action \<lparr>action = Str ''DELETE'', filePath = ''/a.tsx'', code = Str ''junk''\<rparr>
             = Str ''DELETE''"
    by simp
  note present = C7_delete_removes
    [where ev = "\<lparr>action = Str ''DELETE'', filePath = ''/a.tsx'', code = Str ''junk''\<rparr>"
       and files = "[''/a.tsx'' \<mapsto> Str ''old'', ''/b.tsx'' \<mapsto> Str ''keep'']"
       and payload = "''{}''"
       and JSON_parse = "\<lambda>t. Inr \<lparr>action = Str ''DELETE'', filePath = ''/a.tsx'',
                                    code = Str ''junk''\<rparr>", OF h]
  note absent = C7_delete_removes
    [where ev = "\<lparr>action = Str ''DELETE'', filePath = ''/a.tsx'', code = Str ''junk''\<rparr>"
       and files = "[''/b.tsx'' \<mapsto> Str ''keep'']"
       and payload = "''{}''"
       and JSON_parse = "\<lambda>t. Inr \<lparr>action = Str ''DELETE'', filePath = ''/a.tsx'',
                                    code = Str ''junk''\<rparr>", OF h]
  from present have 1: "\<exists>files'.
      applyEvolution [''/a.tsx'' \<mapsto> Str ''old'', ''/b.tsx'' \<mapsto> Str ''keep'']
        \<lparr>action = Str ''DELETE'', filePath = ''/a.tsx'', code = Str ''junk''\<rparr> = Inr files'
      \<and> files' ''/a.tsx'' = None
      \<and> files' ''/b.tsx'' = Some (Str ''keep'')"
    by auto
  from absent have 2: "applyEvolution [''/b.tsx'' \<mapsto> Str ''keep'']
        \<lparr>action = Str ''DELETE'', filePath = ''/a.tsx'', code = Str ''junk''\<rparr>
      = Inr [''/b.tsx'' \<mapsto> Str ''keep'']"
    by auto
  from present have 3: "evolveCode_receive
        (\<lambda>t. Inr \<lparr>action = Str ''DELETE'', filePath = ''/a.tsx'', code = Str ''junk''\<rparr>)
        (Str ''{}'')
      = Inr \<lparr>action = Str ''DELETE'', filePath = ''/a.tsx'', code = Str ''''\<rparr>"
    by simp
  from 1 2 3 show ?thesis by blast
qed

subsection \<open>Rejected responses\<close>

lemma evolveCode_receive_empty:
  "\<not> truthy jsonText \<Longrightarrow> evolveCode_receive JSON_parse jsonText = Inl EmptyResponse"
  by (simp add: evolveCode_receive_def)

lemma evolveCode_receive_action:
  "evolveCode_receive JSON_parse (Str payload) = Inr ev' \<Longrightarrow>
     \<exists>ev. JSON_parse payload = Inr ev \<and> action ev' = action ev \<and> filePath ev' = filePath ev"
  by (auto simp: evolveCode_receive_def split: if_splits sum.splits)

text \<open>
  C5. When the response of the service is empty (its text is \<^verbatim>\<open>undefined\<close> or the
  empty string), or parses to an object whose action is none of \<^verbatim>\<open>UPDATE\<close>,
  \<^verbatim>\<open>CREATE\<close>, \<^verbatim>\<open>DELETE\<close>, then \<^verbatim>\<open>handleEvolveRequest\<close> leaves \<^verbatim>\<open>projectFiles\<close>
  exactly as it was and an error is surfaced.
\<close>

theorem C5_rejected_response_no_mutation:
  assumes "(reply = Response jsonText \<and> \<not> truthy jsonText)
         \<or> (reply = Response (Str payload) \<and> JSON_parse payload = Inr ev
             \<and> action ev \<noteq> Str ''UPDATE'' \<and> action ev \<noteq> Str ''CREATE''
             \<and> action ev \<noteq> Str ''DELETE'')"
  shows "projectFiles (handleEvolveRequest JSON_parse st goal reply) = projectFiles st
       \<and> error_surfaced (handleEvolveRequest JSON_parse st goal reply)"
proof (cases "goal = []")
  case True
  then show ?thesis by (simp add: handleEvolveRequest_def error_surfaced_def)
next
  case False
  from assms show ?thesis
  proof
    assume "reply = Response jsonText \<and> \<not> truthy jsonText"
    with False show ?thesis
      by (simp add: handleEvolveRequest_def error_surfaced_def evolveCode_receive_empty)
  next
    assume a: "reply = Response (Str payload) \<and> JSON_parse payload = Inr ev
             \<and> action ev \<noteq> Str ''UPDATE'' \<and> action ev \<noteq> Str ''CREATE''
             \<and> action ev \<noteq> Str ''DELETE''"
    show ?thesis
    proof (cases "payload = []")
      case True
      with False a show ?thesis
        by (simp add: handleEvolveRequest_def error_surfaced_def evolveCode_receive_def)
    next
      case nonempty: False
      from a nonempty have recv: "evolveCode_receive JSON_parse (Str payload) = Inr ev"
        by (simp add: evolveCode_receive_def)
      from a have app: "applyEvolution (projectFiles st) ev = Inl (UnknownAction (action ev))"
        by (simp add: applyEvolution_unknown)
      from False a recv app show ?thesis
        by (simp add: handleEvolveRequest_def error_surfaced_def)
    qed
  qed
qed

theorem C5_rejected_response_no_mutation_witness:
  "projectFiles
     (handleEvolveRequest
        (\<lambda>t. Inr \<lparr>action = Str ''RENAME'', filePath = ''/a.tsx'', code = Str ''x''\<rparr>)
        \<lparr>projectFiles = [''/a.tsx'' \<mapsto> Str ''old''], isEvolving = True,
          bootError = None, renderError = None\<rparr>
        ''rename it'' (Response (Str ''{}'')))
   = [''/a.tsx'' \<mapsto> Str ''old'']
   \<and> error_surfaced
       (handleEvolveRequest
          (\<lambda>t. Inr \<lparr>action = Str ''RENAME'', filePath = ''/a.tsx'', code = Str ''x''\<rparr>)
          \<lparr>projectFiles = [''/a.tsx'' \<mapsto> Str ''old''], isEvolving = True,
            bootError = None, renderError = None\<rparr>
          ''rename it'' (Response (Str ''{}'')))
   \<and> projectFiles
       (handleEvolveRequest
          (\<lambda>t. Inr \<lparr>action = Str ''RENAME'', filePath = ''/a.tsx'', code = Str ''x''\<rparr>)
          \<lparr>projectFiles = [''/a.tsx'' \<mapsto> Str ''old''], isEvolving = True,
            bootError = None, renderError = None\<rparr>
          ''rename it'' (Response Undefined))
     = [''/a.tsx'' \<mapsto> Str ''old'']
   \<and> bootError
       (handleEvolveRequest
          (\<lambda>t. Inr \<lparr>action = Str ''RENAME'', filePath = ''/a.tsx'', code = Str ''x''\<rparr>)
          \<lparr>projectFiles = [''/a.tsx'' \<mapsto> Str ''old''], isEvolving = True,
            bootError = None, renderError = None\<rparr>
          ''rename it'' (Response Undefined))
     = Some (EvolutionFailed EmptyResponse)"
proof -
  have unknown: "(Response (Str ''{}'') = Response (Str ''{}'') \<and> \<not> truthy (Str ''{}''))
       \<or> (Response (Str ''{}'') = Response (Str ''{}'')
          \<and> (\<lambda>t. Inr \<lparr>action = Str ''RENAME'', filePath = ''/a.tsx'', code = Str ''x''\<rparr>) ''{}''
              = Inr \<lparr>action = Str ''RENAME'', filePath = ''/a.tsx'', code = Str ''x''\<rparr>
          \<and> action \<lparr>action = Str ''RENAME'', filePath = ''/a.tsx'', code = Str ''x''\<rparr>
              \<noteq> Str ''UPDATE''
          \<and> action \<lparr>action = Str ''RENAME'', filePath = ''/a.tsx'', code = Str ''x''\<rparr>
              \<noteq> Str ''CREATE''
          \<and> action \<lparr>action = Str ''RENAME'', filePath = ''/a.tsx'', code = Str ''x''\<rparr>
              \<noteq> Str ''DELETE'')"
    by simp
  have empty: "(Response Undefined = Response Undefined \<and> \<not> truthy Undefined)
       \<or> (Response Undefined = Response (Str ''{}'')
          \<and> (\<lambda>t. Inr \<lparr>action = Str ''RENAME'', filePath = ''/a.tsx'', code = Str ''x''\<rparr>) ''{}''
              = Inr \<lparr>action = Str ''RENAME'', filePath = ''/a.tsx'', code = Str ''x''\<rparr>
          \<and> action \<lparr>action = Str ''RENAME'', filePath = ''/a.tsx'', code = Str ''x''\<rparr>
              \<noteq> Str ''UPDATE''
          \<and> action \<lparr>action = Str ''RENAME'', filePath = ''/a.tsx'', code = Str ''x''\<rparr>
              \<noteq> Str ''CREATE''
          \<and> action \<lparr>action = Str ''RENAME'', filePath = ''/a.tsx'', code = Str ''x''\<rparr>
              \<noteq> Str ''DELETE'')"
    by simp
  note a = C5_rejected_response_no_mutation
    [where reply = "Response (Str ''{}'')" and jsonText = "Str ''{}''" and payload = "''{}''"
       and JSON_parse = "\<lambda>t. Inr \<lparr>action = Str ''RENAME'', filePath = ''/a.tsx'',
                                    code = Str ''x''\<rparr>"
       and ev = "\<lparr>action = Str ''RENAME'', filePath = ''/a.tsx'', code = Str ''x''\<rparr>"
       and st = "\<lparr>projectFiles = [''/a.tsx'' \<mapsto> Str ''old''], isEvolving = True,
                  bootError = None, renderError = None\<rparr>"
       and goal = "''rename it''", OF unknown]
  note b = C5_rejected_response_no_mutation
    [where reply = "Response Undefined" and jsonText = "Undefined" and payload = "''{}''"
       and JSON_parse = "\<lambda>t. Inr \<lparr>action = Str ''RENAME'', filePath = ''/a.tsx'',
                                    code = Str ''x''\<rparr>"
       and ev = "\<lparr>action = Str ''RENAME'', filePath = ''/a.tsx'', code = Str ''x''\<rparr>"
       and st = "\<lparr>projectFiles = [''/a.tsx'' \<mapsto> Str ''old''], isEvolving = True,
                  bootError = None, renderError = None\<rparr>"
       and goal = "''rename it''", OF empty]
  have c: "bootError
       (handleEvolveRequest
          (\<lambda>t. Inr \<lparr>action = Str ''RENAME'', filePath = ''/a.tsx'', code = Str ''x''\<rparr>)
          \<lparr>projectFiles = [''/a.tsx'' \<mapsto> Str ''old''], isEvolving = True,
            bootError = None, renderError = None\<rparr>
          ''rename it'' (Response Undefined))
     = Some (EvolutionFailed EmptyResponse)"
    by (simp add: handleEvolveRequest_def evolveCode_receive_def)
  from a b c show ?thesis by simp
qed

subsection \<open>Boot-critical paths\<close>

text \<open>
  C3 as stated fails: the step that applies an evolution result does not look at the
  path. A \<^verbatim>\<open>DELETE\<close> result naming the boot-critical \<^verbatim>\<open>/boot/kernel.tsx\<close> removes it.
\<close>

theorem C3_boot_delete_counterexample:
  "boot_critical ''/boot/kernel.tsx''
   \<and> [''/boot/kernel.tsx'' \<mapsto> Str ''kernel'', ''/a.tsx'' \<mapsto> Str ''a''] ''/boot/kernel.tsx''
       = Some (Str ''kernel'')
   \<and> (case applyEvolution
             [''/boot/kernel.tsx'' \<mapsto> Str ''kernel'', ''/a.tsx'' \<mapsto> Str ''a'']
             \<lparr>action = Str ''DELETE'', filePath = ''/boot/kernel.tsx'', code = Str ''''\<rparr> of
         Inl e \<Rightarrow> False
       | Inr files' \<Rightarrow> files' ''/boot/kernel.tsx'' = None)"
  by (simp add: boot_critical_def startsWith_def applyEvolution_def)

text \<open>
  C3, amended. The reserved prefix only decides where the file explorer offers a
  delete control: no boot-critical path is among the paths with a control, and every
  other listed path is. Applying an evolution result is not gated by the prefix: a
  \<^verbatim>\<open>DELETE\<close> result removes the path it names, boot-critical or not.
\<close>

theorem C3_delete_gate_is_in_explorer_only:
  "(\<forall>p. p \<in> set (FileExplorer_delete_controls keys) \<longleftrightarrow> p \<in> set keys \<and> \<not> boot_critical p)
   \<and> (\<forall>files ev. action ev = Str ''DELETE'' \<longrightarrow>
          (\<exists>files'. applyEvolution files ev = Inr files' \<and> files' (filePath ev) = None))"
  by (auto simp: FileExplorer_delete_controls_def applyEvolution_def)

theorem C3_delete_gate_is_in_explorer_only_witness:
  "FileExplorer_delete_controls [''/boot/kernel.tsx'', ''/components/Editor.tsx'']
     = [''/components/Editor.tsx'']
   \<and> (\<exists>files'. applyEvolution [''/boot/kernel.tsx'' \<mapsto> Str ''kernel'']
          \<lparr>action = Str ''DELETE'', filePath = ''/boot/kernel.tsx'', code = Str ''''\<rparr>
          = Inr files' \<and> files' ''/boot/kernel.tsx'' = None)"
proof -
  have a: "FileExplorer_delete_controls [''/boot/kernel.tsx'', ''/components/Editor.tsx'']
     = [''/components/Editor.tsx'']"
    by (simp add: FileExplorer_delete_controls_def boot_critical_def startsWith_def)
  have b: "action \<lparr>action = Str ''DELETE'', filePath = ''/boot/kernel.tsx'', code = Str ''''\<rparr>
     = Str ''DELETE''"
    by simp
  from C3_delete_gate_is_in_explorer_only
    [of "[''/boot/kernel.tsx'', ''/components/Editor.tsx'']"]
  have "\<exists>files'. applyEvolution [''/boot/kernel.tsx'' \<mapsto> Str ''kernel'']
          \<lparr>action = Str ''DELETE'', filePath = ''/boot/kernel.tsx'', code = Str ''''\<rparr>
          = Inr files'
        \<and> files' (filePath \<lparr>action = Str ''DELETE'', filePath = ''/boot/kernel.tsx'',
                               code = Str ''''\<rparr>) = None"
    using b by blast
  then show ?thesis using a by simp
qed

subsection \<open>Multi-target apply\<close>

lemma onVfsBatchUpdate_lookup:
  "onVfsBatchUpdate vfs changes q =
     (case map_of (rev changes) q of None \<Rightarrow> vfs q | Some c \<Rightarrow> Some (Str c))"
proof (induction changes arbitrary: vfs)
  case Nil
  show ?case by simp
next
  case (Cons change changes)
  obtain p c where change: "change = (p, c)" by (cases change)
  show ?case
    by (simp add: change Cons.IH map_of_append map_add_def split: option.splits)
qed

lemma map_of_rev_distinct:
  assumes "distinct (map fst changes)"
  shows "map_of (rev changes) q = Some c \<longleftrightarrow> (q, c) \<in> set changes"
proof -
  have "distinct (map fst (rev changes))"
    using assms by (simp add: rev_map [symmetric])
  then show ?thesis
    using map_of_eq_Some_iff [of "rev changes" q c] by simp
qed

lemma onVfsBatchUpdate_listed:
  assumes "distinct (map fst changes)" and "(p, c) \<in> set changes"
  shows "onVfsBatchUpdate vfs changes p = Some (Str c)"
  using assms map_of_rev_distinct [of changes p c]
  by (simp add: onVfsBatchUpdate_lookup)

lemma onVfsBatchUpdate_unlisted:
  assumes "q \<notin> fst ` set changes"
  shows "onVfsBatchUpdate vfs changes q = vfs q"
proof -
  have "map_of (rev changes) q = None"
    using assms by (simp add: map_of_eq_None_iff)
  then show ?thesis by (simp add: onVfsBatchUpdate_lookup)
qed

lemma onVfsBatchUpdate_permuted:
  assumes d: "distinct (map fst changes)" and m: "mset changes' = mset changes"
  shows "onVfsBatchUpdate vfs changes' = onVfsBatchUpdate vfs changes"
proof (rule ext)
  fix q
  from m have "mset (map fst changes') = mset (map fst changes)"
    by (metis mset_map)
  with d have d': "distinct (map fst changes')"
    by (metis mset_eq_imp_distinct_iff)
  from m have s: "set changes' = set changes"
    by (metis set_mset_mset)
  have "map_of (rev changes') q = map_of (rev changes) q"
  proof (cases "map_of (rev changes) q")
    case None
    then have "q \<notin> fst ` set changes"
      by (simp add: map_of_eq_None_iff)
    with s have "q \<notin> fst ` set changes'" by simp
    then have "map_of (rev changes') q = None"
      by (simp add: map_of_eq_None_iff)
    with None show ?thesis by simp
  next
    case (Some c)
    with d have "(q, c) \<in> set changes" by (simp add: map_of_rev_distinct)
    with s d' have "map_of (rev changes') q = Some c" by (simp add: map_of_rev_distinct)
    with Some show ?thesis by simp
  qed
  then show "onVfsBatchUpdate vfs changes' q = onVfsBatchUpdate vfs changes q"
    by (simp add: onVfsBatchUpdate_lookup)
qed

lemma handleEvolve_apply_batch:
  "handleEvolve_apply vfs (Some changes) = onVfsBatchUpdate vfs changes"
  by (cases changes) (simp_all add: handleEvolve_apply_def)

text \<open>
  C8. For a list of changes with pairwise distinct paths, the multi-target apply
  yields a tree in which every listed path holds its listed content and every
  unlisted path holds what it held before; applying the same entries in any other
  order yields the same tree.
\<close>

theorem C8_batch_upserts_exactly_listed:
  assumes "distinct (map fst changes)"
  shows "(\<forall>(p, c) \<in> set changes. handleEvolve_apply vfs (Some changes) p = Some (Str c))
       \<and> (\<forall>q. q \<notin> fst ` set changes \<longrightarrow> handleEvolve_apply vfs (Some changes) q = vfs q)
       \<and> (\<forall>changes'. mset changes' = mset changes \<longrightarrow>
             handleEvolve_apply vfs (Some changes') = handleEvolve_apply vfs (Some changes))"
proof (intro conjI)
  show "\<forall>(p, c) \<in> set changes. handleEvolve_apply vfs (Some changes) p = Some (Str c)"
  proof (intro ballI, clarify)
    fix p c assume "(p, c) \<in> set changes"
    with assms have "onVfsBatchUpdate vfs changes p = Some (Str c)"
      by (rule onVfsBatchUpdate_listed)
    then show "handleEvolve_apply vfs (Some changes) p = Some (Str c)"
      by (simp only: handleEvolve_apply_batch)
  qed
  show "\<forall>q. q \<notin> fst ` set changes \<longrightarrow> handleEvolve_apply vfs (Some changes) q = vfs q"
    by (simp add: handleEvolve_apply_batch onVfsBatchUpdate_unlisted)
  show "\<forall>changes'. mset changes' = mset changes \<longrightarrow>
          handleEvolve_apply vfs (Some changes') = handleEvolve_apply vfs (Some changes)"
  proof (intro allI impI)
    fix changes' :: "change list"
    assume "mset changes' = mset changes"
    with assms have "onVfsBatchUpdate vfs changes' = onVfsBatchUpdate vfs changes"
      by (rule onVfsBatchUpdate_permuted)
    then show "handleEvolve_apply vfs (Some changes') = handleEvolve_apply vfs (Some changes)"
      by (simp only: handleEvolve_apply_batch)
  qed
qed

theorem C8_batch_upserts_exactly_listed_witness:
  "handleEvolve_apply [''/a.tsx'' \<mapsto> Str ''old'', ''/keep.tsx'' \<mapsto> Str ''k'']
      (Some [(''/a.tsx'', ''new''), (''/b.tsx'', ''made'')]) ''/a.tsx'' = Some (Str ''new'')
   \<and> handleEvolve_apply [''/a.tsx'' \<mapsto> Str ''old'', ''/keep.tsx'' \<mapsto> Str ''k'']
      (Some [(''/a.tsx'', ''new''), (''/b.tsx'', ''made'')]) ''/b.tsx'' = Some (Str ''made'')
   \<and> handleEvolve_apply [''/a.tsx'' \<mapsto> Str ''old'', ''/keep.tsx'' \<mapsto> Str ''k'']
      (Some [(''/a.tsx'', ''new''), (''/b.tsx'', ''made'')]) ''/keep.tsx'' = Some (Str ''k'')
   \<and> handleEvolve_apply [''/a.tsx'' \<mapsto> Str ''old'', ''/keep.tsx'' \<mapsto> Str ''k'']
      (Some [(''/b.tsx'', ''made''), (''/a.tsx'', ''new'')])
     = handleEvolve_apply [''/a.tsx'' \<mapsto> Str ''old'', ''/keep.tsx'' \<mapsto> Str ''k'']
      (Some [(''/a.tsx'', ''new''), (''/b.tsx'', ''made'')])"
proof -
  have d: "distinct (map fst [(''/a.tsx'', ''new''), (''/b.tsx'', ''made'')])"
    by simp
  have m: "mset [(''/b.tsx'', ''made''), (''/a.tsx'', ''new'')]
         = mset [(''/a.tsx'', ''new''), (''/b.tsx'', ''made'')]"
    by (simp add: add.commute)
  note t = C8_batch_upserts_exactly_listed
    [OF d, of "[''/a.tsx'' \<mapsto> Str ''old'', ''/keep.tsx'' \<mapsto> Str ''k'']"]
  from t have listed: "\<forall>(p, c) \<in> set [(''/a.tsx'', ''new''), (''/b.tsx'', ''made'')].
      handleEvolve_apply [''/a.tsx'' \<mapsto> Str ''old'', ''/keep.tsx'' \<mapsto> Str ''k'']
        (Some [(''/a.tsx'', ''new''), (''/b.tsx'', ''made'')]) p = Some (Str c)"
    by (rule conjunct1)
  from t have unlisted: "\<forall>q. q \<notin> fst ` set [(''/a.tsx'', ''new''), (''/b.tsx'', ''made'')] \<longrightarrow>
      handleEvolve_apply [''/a.tsx'' \<mapsto> Str ''old'', ''/keep.tsx'' \<mapsto> Str ''k'']
        (Some [(''/a.tsx'', ''new''), (''/b.tsx'', ''made'')]) q
      = [''/a.tsx'' \<mapsto> Str ''old'', ''/keep.tsx'' \<mapsto> Str ''k''] q"
    by (rule conjunct1 [OF conjunct2])
  from t have perm: "\<forall>changes'. mset changes' = mset [(''/a.tsx'', ''new''), (''/b.tsx'', ''made'')] \<longrightarrow>
      handleEvolve_apply [''/a.tsx'' \<mapsto> Str ''old'', ''/keep.tsx'' \<mapsto> Str ''k''] (Some changes')
      = handleEvolve_apply [''/a.tsx'' \<mapsto> Str ''old'', ''/keep.tsx'' \<mapsto> Str ''k'']
        (Some [(''/a.tsx'', ''new''), (''/b.tsx'', ''made'')])"
    by (rule conjunct2 [OF conjunct2])
  from listed have 1: "handleEvolve_apply [''/a.tsx'' \<mapsto> Str ''old'', ''/keep.tsx'' \<mapsto> Str ''k'']
      (Some [(''/a.tsx'', ''new''), (''/b.tsx'', ''made'')]) ''/a.tsx'' = Some (Str ''new'')"
    by simp
  from listed have 2: "handleEvolve_apply [''/a.tsx'' \<mapsto> Str ''old'', ''/keep.tsx'' \<mapsto> Str ''k'']
      (Some [(''/a.tsx'', ''new''), (''/b.tsx'', ''made'')]) ''/b.tsx'' = Some (Str ''made'')"
    by simp
  from unlisted [rule_format, of "''/keep.tsx''"]
  have 3: "handleEvolve_apply [''/a.tsx'' \<mapsto> Str ''old'', ''/keep.tsx'' \<mapsto> Str ''k'']
      (Some [(''/a.tsx'', ''new''), (''/b.tsx'', ''made'')]) ''/keep.tsx'' = Some (Str ''k'')"
    by simp
  from perm [rule_format, OF m] 1 2 3 show ?thesis by simp
qed

subsection \<open>The BIOS: start-up and the code sanitizer\<close>

text \<open>
  C10. When reading the persisted tree throws, when the key is absent, and when the
  stored text does not parse, the application starts from the seed tree.
\<close>

theorem C10_startup_falls_back_to_seed:
  "initialProjectFiles INITIAL_PROJECT JSON_parse GetItemThrows = INITIAL_PROJECT
   \<and> initialProjectFiles INITIAL_PROJECT JSON_parse Null = INITIAL_PROJECT
   \<and> (JSON_parse saved = Inl e \<longrightarrow>
        initialProjectFiles INITIAL_PROJECT JSON_parse (Saved saved) = INITIAL_PROJECT)"
  by (simp add: initialProjectFiles_def)

theorem C10_startup_falls_back_to_seed_witness:
  "initialProjectFiles [''/boot/kernel.tsx'' \<mapsto> Str ''seed'']
      (\<lambda>t. if t = ''{}'' then Inr Map.empty else Inl (SyntaxError ''Unexpected token''))
      (Saved ''{oops'')
    = [''/boot/kernel.tsx'' \<mapsto> Str ''seed'']
   \<and> initialProjectFiles [''/boot/kernel.tsx'' \<mapsto> Str ''seed'']
      (\<lambda>t. if t = ''{}'' then Inr Map.empty else Inl (SyntaxError ''Unexpected token''))
      (Saved ''{}'')
    = Map.empty"
proof -
  have "initialProjectFiles [''/boot/kernel.tsx'' \<mapsto> Str ''seed'']
      (\<lambda>t. if t = ''{}'' then Inr Map.empty else Inl (SyntaxError ''Unexpected token''))
      (Saved ''{oops'')
    = [''/boot/kernel.tsx'' \<mapsto> Str ''seed'']"
    using C10_startup_falls_back_to_seed
      [of "[''/boot/kernel.tsx'' \<mapsto> Str ''seed'']"
          "\<lambda>t. if t = ''{}'' then Inr Map.empty else Inl (SyntaxError ''Unexpected token'')"
          "''{oops''" "SyntaxError ''Unexpected token''"]
    by simp
  then show ?thesis by (simp add: initialProjectFiles_def)
qed

text \<open>
  C9. The sanitizer is not idempotent, and it changes a string whose backslashes all
  belong to valid escape sequences: in backslash, backslash, \<open>x\<close> the two backslashes
  form the escape of a backslash, yet the second one is doubled again, because the
  lookahead does not consume the character it accepts. Sanitizing backslash, \<open>x\<close>
  gives backslash, backslash, \<open>x\<close>, and sanitizing that again gives three backslashes
  and \<open>x\<close>.
\<close>

theorem C9_sanitize_twice_differs:
  "sanitizeCodeForBabel [backslash, CHR ''x''] = [backslash, backslash, CHR ''x'']
   \<and> sanitizeCodeForBabel (sanitizeCodeForBabel [backslash, CHR ''x''])
       = [backslash, backslash, backslash, CHR ''x'']
   \<and> sanitizeCodeForBabel (sanitizeCodeForBabel [backslash, CHR ''x''])
       \<noteq> sanitizeCodeForBabel [backslash, CHR ''x'']"
  by (simp add: escapeAhead_def backslash_def)

text \<open>
  What does hold of the sanitizer: every match adds one character, and a string is
  left as it is exactly when it has no match, that is, when every backslash in it is
  directly followed by one of \<open>n\<close>, \<open>t\<close>, a quote, a backslash, a slash, or \<open>u\<close> and
  four hexadecimal digits.
\<close>

lemma length_sanitizeCodeForBabel:
  "length (sanitizeCodeForBabel s) = length s + offending s"
  by (induction s) simp_all

theorem sanitizeCodeForBabel_identity_iff:
  "sanitizeCodeForBabel s = s \<longleftrightarrow> offending s = 0"
proof
  assume "sanitizeCodeForBabel s = s"
  then have "length (sanitizeCodeForBabel s) = length s" by simp
  then show "offending s = 0" by (simp add: length_sanitizeCodeForBabel)
next
  assume "offending s = 0"
  then show "sanitizeCodeForBabel s = s"
    by (induction s) (simp_all split: if_splits)
qed

subsection \<open>Resolution by the loader of the bootloader\<close>

lemma absolute_keys_no_hasOwnProperty:
  assumes "\<forall>p \<in> dom files. startsWith p ''/''"
  shows "''hasOwnProperty'' \<notin> dom files"
proof
  assume "''hasOwnProperty'' \<in> dom files"
  with assms have "startsWith ''hasOwnProperty'' ''/''" by blast
  then show False by (simp add: startsWith_def)
qed

lemma probe_find:
  assumes "''hasOwnProperty'' \<notin> dom files"
  shows "probe files ps = Inr (find (\<lambda>p. p \<in> dom files) ps)"
  using assms by (induction ps) simp_all

lemma probe_hasOwnProperty_key:
  assumes "''hasOwnProperty'' \<in> dom files"
  shows "probe files (p # ps) = Inl (TypeError ''projectFiles.hasOwnProperty is not a function'')"
  using assms by simp

lemma customRequire_resolve_find:
  assumes react: "importPath \<noteq> ''react''"
    and url: "URL_pathname importPath (importer_base importerPath) = Inr b"
    and keys: "\<forall>p \<in> dom files. startsWith p ''/''"
  shows "customRequire_resolve URL_pathname files importerPath importPath =
           (case find (\<lambda>p. p \<in> dom files) (possiblePaths b) of
              None \<Rightarrow> Inl (ModuleNotFound importPath importerPath b)
            | Some p \<Rightarrow> Inr (File p))"
proof -
  from keys have "''hasOwnProperty'' \<notin> dom files"
    by (rule absolute_keys_no_hasOwnProperty)
  then have pr: "probe files (possiblePaths b) = Inr (find (\<lambda>p. p \<in> dom files) (possiblePaths b))"
    by (rule probe_find)
  show ?thesis
  proof (cases "find (\<lambda>p. p \<in> dom files) (possiblePaths b)")
    case None
    with react url pr show ?thesis by (simp add: customRequire_resolve_def)
  next
    case (Some p)
    then have "p \<in> dom files" by (auto simp: find_Some_iff)
    with keys have "startsWith p ''/''" by blast
    then have "p \<noteq> []" by (auto simp: startsWith_def)
    with Some react url pr show ?thesis by (simp add: customRequire_resolve_def)
  qed
qed



subsection \<open>The cycle test\<close>

lemma cycle_resolve_a_from_a:
  "customRequire_resolve URL_pathname_plain cycle_vfs ''/a'' ''/a'' = Inr (File ''/a'')"
  by code_simp

lemma cycle_resolve_b_from_a:
  "customRequire_resolve URL_pathname_plain cycle_vfs ''/a'' ''/b'' = Inr (File ''/b'')"
  by code_simp

lemma cycle_resolve_a_from_b:
  "customRequire_resolve URL_pathname_plain cycle_vfs ''/b'' ''/a'' = Inr (File ''/a'')"
  by code_simp

lemma cycle_paths_not_inherited:
  "''/a'' \<notin> set Object_prototype_keys" "''/b'' \<notin> set Object_prototype_keys"
  by (simp_all add: Object_prototype_keys_def)

lemma cycle_body_a:
  "transform_single_require (js_get cycle_vfs ''/a'') ''/a'' = Inr [Require ''/b'']"
  by code_simp

lemma cycle_body_b:
  "transform_single_require (js_get cycle_vfs ''/b'') ''/b'' = Inr [Require ''/a'']"
  by code_simp

text \<open>
  C2. On the tree of the cycle test, loading \<^verbatim>\<open>/a\<close> returns for every nesting bound
  of at least three: the bodies of \<^verbatim>\<open>/a\<close> and \<^verbatim>\<open>/b\<close> are each started once, and
  the \<^verbatim>\<open>require\<close> call inside \<^verbatim>\<open>/b\<close> gets the very object (reference \<open>0\<close>) that
  the load of \<^verbatim>\<open>/a\<close> finally returns, which was put into the cache before the body
  of \<^verbatim>\<open>/a\<close> ran.
\<close>

theorem C2_cycle_returns_shared_exports:
  "customRequire (Suc (Suc (Suc k))) URL_pathname_plain transform_single_require cycle_vfs
      initial_loader_state ''/a'' ''/a''
   = Some (Inr (Exports 0,
       \<lparr>moduleCache = [''/a'' \<mapsto> 0, ''/b'' \<mapsto> Suc 0],
        properties = [0 \<mapsto> Map.empty, Suc 0 \<mapsto> Map.empty],
        next_ref = Suc (Suc 0),
        executed = [''/a'', ''/b''],
        observed = [(''/b'', ''/a'', Exports 0), (''/a'', ''/b'', Exports (Suc 0))]\<rparr>))"
  by (simp add: cycle_resolve_a_from_a cycle_resolve_b_from_a cycle_resolve_a_from_b
      cycle_body_a cycle_body_b cycle_paths_not_inherited initial_loader_state_def)

theorem C2_cycle_returns_shared_exports_witness:
  "(case customRequire 3 URL_pathname_plain transform_single_require cycle_vfs
           initial_loader_state ''/a'' ''/a'' of
      Some (Inr (Exports final, st)) \<Rightarrow>
        executed st = [''/a'', ''/b'']
        \<and> observed st = [(''/b'', ''/a'', Exports final), (''/a'', ''/b'', Exports (Suc 0))]
        \<and> moduleCache st ''/a'' = Some final
    | _ \<Rightarrow> False)"
  using C2_cycle_returns_shared_exports [of 0] by (simp add: numeral_3_eq_3)

subsection \<open>The resolver of the bundle against the loader of the bootloader\<close>

text \<open>
  C4 as stated fails. With \<^verbatim>\<open>/index.tsx\<close>, \<^verbatim>\<open>/a.tsx\<close> and \<^verbatim>\<open>/lib/index.tsx\<close> in the
  tree, the loader of the bootloader resolves \<^verbatim>\<open>/a\<close> to \<^verbatim>\<open>/a.tsx\<close> and \<^verbatim>\<open>./lib\<close>
  to \<^verbatim>\<open>/lib/index.tsx\<close>; the resolver of the bundle generated for this tree fails
  on both, since it returns a specifier that does not start with a dot unchanged and
  never probes an index file.
\<close>

theorem C4_resolvers_differ_counterexample:
  "outcome (customRequire_resolve URL_pathname_plain
      [''/index.tsx'' \<mapsto> Str ''x'', ''/a.tsx'' \<mapsto> Str ''y'', ''/lib/index.tsx'' \<mapsto> Str ''z'']
      ''/index.tsx'' ''/a'') = Some (File ''/a.tsx'')
   \<and> outcome (customRequire_resolve URL_pathname_plain
      [''/index.tsx'' \<mapsto> Str ''x'', ''/a.tsx'' \<mapsto> Str ''y'', ''/lib/index.tsx'' \<mapsto> Str ''z'']
      ''/index.tsx'' ''./lib'') = Some (File ''/lib/index.tsx'')
   \<and> (case bundle_modules code_as_is
            [''/index.tsx'' \<mapsto> Str ''x'', ''/a.tsx'' \<mapsto> Str ''y'', ''/lib/index.tsx'' \<mapsto> Str ''z'']
            [''/index.tsx'', ''/a.tsx'', ''/lib/index.tsx''] of
         None \<Rightarrow> False
       | Some modules \<Rightarrow>
           outcome (bundle_resolve modules ''/index.tsx'' ''/a'') = None
           \<and> outcome (bundle_resolve modules ''/index.tsx'' ''./lib'') = None)"
  by code_simp

lemma endsWith_append [simp]: "endsWith (b @ ext) ext"
  by (simp add: endsWith_def)

lemma startsWith_slash_iff: "startsWith p ''/'' \<longleftrightarrow> (\<exists>rest. p = CHR ''/'' # rest)"
  by (cases p) (auto simp: startsWith_def)

lemma startsWith_dot_iff: "startsWith p ''.'' \<longleftrightarrow> (\<exists>rest. p = CHR ''.'' # rest)"
  by (cases p) (auto simp: startsWith_def)

lemma not_prototype_key:
  assumes "startsWith p ''/''"
  shows "p \<notin> set Object_prototype_keys"
  using assms by (auto simp: startsWith_slash_iff Object_prototype_keys_def)

lemma bundle_modules_cases:
  "bundle_modules Babel_code files keys = None
   \<or> bundle_modules Babel_code files keys = Some (transpiledVFS Babel_code files)"
  by (simp add: bundle_modules_def split: option.splits)

lemma bundle_modules_Some:
  assumes "bundle_modules Babel_code files keys = Some modules"
  shows "modules = transpiledVFS Babel_code files"
  using assms bundle_modules_cases [of Babel_code files keys] by auto

lemma modules_truthy_transpiled:
  assumes "startsWith p ''/''"
    and "\<forall>src. files p = Some src \<longrightarrow> Babel_code src p \<noteq> []"
  shows "modules_truthy (transpiledVFS Babel_code files) p
           \<longleftrightarrow> (endsWith p ''.ts'' \<or> endsWith p ''.tsx'') \<and> files p \<noteq> None"
  using assms not_prototype_key [OF assms(1)]
  by (auto simp: modules_truthy_def transpiledVFS_def split: option.splits)

lemma bundle_resolve_relative:
  assumes rel: "startsWith relative ''.''"
    and norm: "join_slash (resolve_parts (butlast (split_slash importer))
                 (split_slash relative)) = b"
    and slash: "startsWith b ''/''"
    and code: "\<forall>p src. files p = Some src \<longrightarrow> Babel_code src p \<noteq> []"
  shows "outcome (bundle_resolve (transpiledVFS Babel_code files) importer relative) =
           (if endsWith b ''.tsx'' \<or> endsWith b ''.ts''
            then (if files b \<noteq> None then Some (File b) else None)
            else if files (b @ ''.tsx'') \<noteq> None then Some (File (b @ ''.tsx''))
            else if files (b @ ''.ts'') \<noteq> None then Some (File (b @ ''.ts''))
            else None)"
proof -
  from rel have caps: "relative \<noteq> ''react''" "relative \<noteq> ''@google/genai''"
    by (auto simp: startsWith_dot_iff)
  from slash have s1: "startsWith (b @ ''.tsx'') ''/''" and s2: "startsWith (b @ ''.ts'') ''/''"
    by (auto simp: startsWith_slash_iff)
  have t0: "modules_truthy (transpiledVFS Babel_code files) b
      \<longleftrightarrow> (endsWith b ''.ts'' \<or> endsWith b ''.tsx'') \<and> files b \<noteq> None"
    using slash code by (simp add: modules_truthy_transpiled)
  have t1: "modules_truthy (transpiledVFS Babel_code files) (b @ ''.tsx'')
      \<longleftrightarrow> files (b @ ''.tsx'') \<noteq> None"
    using s1 code by (simp add: modules_truthy_transpiled)
  have t2: "modules_truthy (transpiledVFS Babel_code files) (b @ ''.ts'')
      \<longleftrightarrow> files (b @ ''.ts'') \<noteq> None"
    using s2 code by (simp add: modules_truthy_transpiled)
  show ?thesis
    using rel caps
    by (auto simp: bundle_resolve_def resolvePath_def norm Let_def t0 t1 t2 outcome_def)
qed

text \<open>
  C4, amended. The resolver of the bundle is another algorithm than the one of the
  bootloader: a specifier that does not start with a dot is returned unchanged,
  without probing. Take a tree whose paths all begin with a slash, \<open>keys\<close> its own
  keys, and the bundle generated for it (the entry point is there, and the paths and
  transpiled texts survive the splicing into the script), every file of the tree
  having a non-empty transpiled text. For a relative specifier on which both
  normalisations give the same path \<open>b\<close>, the two resolve alike, to the same file
  or both failing, exactly in these cases: \<open>b\<close> ends in \<open>.ts\<close> or \<open>.tsx\<close> and either
  \<open>b\<close> is in the tree or none of the other four candidates is; or \<open>b\<close> has no such
  ending, \<open>b\<close> is not in the tree, and one of \<open>b.tsx\<close>, \<open>b.ts\<close> is in the tree or
  neither index candidate is.
\<close>

theorem C4_resolvers_agree_exactly_when:
  assumes rel: "startsWith relative ''.''"
    and url: "URL_pathname relative (importer_base importer) = Inr b"
    and norm: "join_slash (resolve_parts (butlast (split_slash importer))
                 (split_slash relative)) = b"
    and slash: "startsWith b ''/''"
    and code: "\<forall>p src. files p = Some src \<longrightarrow> Babel_code src p \<noteq> []"
    and keys: "\<forall>p \<in> dom files. startsWith p ''/''"
    and listed: "set keys = dom files"
    and built: "bundle_modules Babel_code files keys = Some modules"
  shows "(\<forall>modules base spec. \<not> startsWith spec ''.'' \<longrightarrow> resolvePath modules base spec = spec)
       \<and> ((outcome (customRequire_resolve URL_pathname files importer relative)
             = outcome (bundle_resolve modules importer relative))
           \<longleftrightarrow>
           (if endsWith b ''.tsx'' \<or> endsWith b ''.ts''
            then files b \<noteq> None
                 \<or> (files (b @ ''.tsx'') = None \<and> files (b @ ''.ts'') = None
                    \<and> files (b @ ''/index.tsx'') = None \<and> files (b @ ''/index.ts'') = None)
            else files b = None
                 \<and> (files (b @ ''.tsx'') \<noteq> None \<or> files (b @ ''.ts'') \<noteq> None
                    \<or> (files (b @ ''/index.tsx'') = None \<and> files (b @ ''/index.ts'') = None))))"
proof
  show "\<forall>modules base spec. \<not> startsWith spec ''.'' \<longrightarrow> resolvePath modules base spec = spec"
    by (simp add: resolvePath_def)
next
  from built have m: "modules = transpiledVFS Babel_code files"
    by (rule bundle_modules_Some)
  from rel have react: "relative \<noteq> ''react''"
    by (auto simp: startsWith_dot_iff)
  have outer: "outcome (customRequire_resolve URL_pathname files importer relative) =
      (if files b \<noteq> None then Some (File b)
       else if files (b @ ''.tsx'') \<noteq> None then Some (File (b @ ''.tsx''))
       else if files (b @ ''.ts'') \<noteq> None then Some (File (b @ ''.ts''))
       else if files (b @ ''/index.tsx'') \<noteq> None then Some (File (b @ ''/index.tsx''))
       else if files (b @ ''/index.ts'') \<noteq> None then Some (File (b @ ''/index.ts''))
       else None)"
    by (simp add: customRequire_resolve_find
          [where URL_pathname = URL_pathname and importPath = relative
             and importerPath = importer and b = b, OF react url keys]
        possiblePaths_def outcome_def domIff)
  have inner: "outcome (bundle_resolve modules importer relative) =
      (if endsWith b ''.tsx'' \<or> endsWith b ''.ts''
       then (if files b \<noteq> None then Some (File b) else None)
       else if files (b @ ''.tsx'') \<noteq> None then Some (File (b @ ''.tsx''))
       else if files (b @ ''.ts'') \<noteq> None then Some (File (b @ ''.ts''))
       else None)"
    unfolding m using rel norm slash code by (rule bundle_resolve_relative)
  show "(outcome (customRequire_resolve URL_pathname files importer relative)
             = outcome (bundle_resolve modules importer relative))
           \<longleftrightarrow>
           (if endsWith b ''.tsx'' \<or> endsWith b ''.ts''
            then files b \<noteq> None
                 \<or> (files (b @ ''.tsx'') = None \<and> files (b @ ''.ts'') = None
                    \<and> files (b @ ''/index.tsx'') = None \<and> files (b @ ''/index.ts'') = None)
            else files b = None
                 \<and> (files (b @ ''.tsx'') \<noteq> None \<or> files (b @ ''.ts'') \<noteq> None
                    \<or> (files (b @ ''/index.tsx'') = None \<and> files (b @ ''/index.ts'') = None)))"
    unfolding outer inner by auto
qed

theorem C4_resolvers_agree_exactly_when_witness:
  "(case bundle_modules code_as_is
          [''/index.tsx'' \<mapsto> Str ''x'', ''/App.tsx'' \<mapsto> Str ''y'']
          [''/index.tsx'', ''/App.tsx''] of
      None \<Rightarrow> False
    | Some modules \<Rightarrow>
        outcome (customRequire_resolve URL_pathname_plain
           [''/index.tsx'' \<mapsto> Str ''x'', ''/App.tsx'' \<mapsto> Str ''y''] ''/index.tsx'' ''./App'')
        = outcome (bundle_resolve modules ''/index.tsx'' ''./App'')
        \<and> outcome (bundle_resolve modules ''/index.tsx'' ''./App'') = Some (File ''/App.tsx''))"
proof -
  have rel: "startsWith ''./App'' ''.''"
    by (simp add: startsWith_def)
  have url: "URL_pathname_plain ''./App'' (importer_base ''/index.tsx'') = Inr ''/App''"
    by code_simp
  have norm: "join_slash (resolve_parts (butlast (split_slash ''/index.tsx''))
                 (split_slash ''./App'')) = ''/App''"
    by code_simp
  have slash: "startsWith ''/App'' ''/''"
    by (simp add: startsWith_def)
  have code: "\<forall>p src. [''/index.tsx'' \<mapsto> Str ''x'', ''/App.tsx'' \<mapsto> Str ''y''] p = Some src
      \<longrightarrow> code_as_is src p \<noteq> []"
    by (auto simp: code_as_is_def split: if_splits)
  have keys: "\<forall>p \<in> dom [''/index.tsx'' \<mapsto> Str ''x'', ''/App.tsx'' \<mapsto> Str ''y''].
      startsWith p ''/''"
    by (auto simp: startsWith_def split: if_splits)
  have listed: "set [''/index.tsx'', ''/App.tsx'']
      = dom [''/index.tsx'' \<mapsto> Str ''x'', ''/App.tsx'' \<mapsto> Str ''y'']"
    by auto
  have generated: "(case bundle_modules code_as_is
          [''/index.tsx'' \<mapsto> Str ''x'', ''/App.tsx'' \<mapsto> Str ''y'']
          [''/index.tsx'', ''/App.tsx''] of None \<Rightarrow> False | Some modules \<Rightarrow> True)"
    by code_simp
  then obtain modules where built: "bundle_modules code_as_is
          [''/index.tsx'' \<mapsto> Str ''x'', ''/App.tsx'' \<mapsto> Str ''y'']
          [''/index.tsx'', ''/App.tsx''] = Some modules"
    by (auto split: option.splits)
  then have m: "modules = transpiledVFS code_as_is
      [''/index.tsx'' \<mapsto> Str ''x'', ''/App.tsx'' \<mapsto> Str ''y'']"
    by (rule bundle_modules_Some)
  have cond: "\<not> (endsWith ''/App'' ''.tsx'' \<or> endsWith ''/App'' ''.ts'')"
    by (simp add: endsWith_def)
  have same: "outcome (customRequire_resolve URL_pathname_plain
      [''/index.tsx'' \<mapsto> Str ''x'', ''/App.tsx'' \<mapsto> Str ''y''] ''/index.tsx'' ''./App'')
   = outcome (bundle_resolve modules ''/index.tsx'' ''./App'')"
    using C4_resolvers_agree_exactly_when
      [where URL_pathname = URL_pathname_plain and relative = "''./App''"
         and importer = "''/index.tsx''" and b = "''/App''" and Babel_code = code_as_is
         and files = "[''/index.tsx'' \<mapsto> Str ''x'', ''/App.tsx'' \<mapsto> Str ''y'']"
         and keys = "[''/index.tsx'', ''/App.tsx'']" and modules = modules,
       OF rel url norm slash code keys listed built, THEN conjunct2] cond
    by simp
  have found: "outcome (bundle_resolve (transpiledVFS code_as_is
      [''/index.tsx'' \<mapsto> Str ''x'', ''/App.tsx'' \<mapsto> Str ''y'']) ''/index.tsx'' ''./App'')
     = Some (File ''/App.tsx'')"
    by code_simp
  from built same found show ?thesis by (simp add: m)
qed

end
